theory Spec2Isabelle
  imports Main
begin

section \<open>Incident hooks of keep-ui: resource keys\<close>

text \<open>
  The hooks of the incident model (\<^verbatim>\<open>useIncidents\<close>, \<^verbatim>\<open>useIncident\<close>, ...) compute a
  resource key from their parameters and hand it to the data-fetching layer. JavaScript
  strings are modelled as their UTF-8 bytes (\<open>string\<close>), which is what the
  \<^verbatim>\<open>URLSearchParams\<close> serializer works on. The numbers of the hooks (\<^verbatim>\<open>limit\<close>,
  \<^verbatim>\<open>offset\<close>) are page sizes and positions, modelled as \<open>int\<close>; a fraction, NaN or an
  infinity is not a value of the model.
\<close>

subsection \<open>JavaScript values\<close>

text \<open>A parameter of type \<^verbatim>\<open>boolean | null\<close> whose argument may also be left out.\<close>

datatype tristate = Undefined | Null | Bool bool

definition boolean_toString :: "bool \<Rightarrow> string" where
  "boolean_toString b = (if b then ''true'' else ''false'')"

definition digit_char :: "nat \<Rightarrow> char" where
  "digit_char d = ''0123456789ABCDEF'' ! d"

fun nat_toString :: "nat \<Rightarrow> string" where
  "nat_toString n =
     (if n < 10 then [digit_char n] else nat_toString (n div 10) @ [digit_char (n mod 10)])"

definition int_digits :: "int \<Rightarrow> string" where
  "int_digits i = (if i < 0 then CHR ''-'' # nat_toString (nat (- i)) else nat_toString (nat i))"

text \<open>
  \<^verbatim>\<open>Number.prototype.toString\<close>, which a template literal applies too. A safe integer
  (of magnitude at most \<open>2^53 - 1\<close>) is printed as its decimal digits. Beyond that
  range JavaScript prints the shortest digits that read back as the same double, and an
  exponent from \<open>10^21\<close>; that rendering is not computed here but taken as the
  parameter \<open>large\<close>.
\<close>

definition number_toString :: "(int \<Rightarrow> string) \<Rightarrow> int \<Rightarrow> string" where
  "number_toString large i =
     (if - 9007199254740991 \<le> i \<and> i \<le> 9007199254740991 then int_digits i else large i)"

subsection \<open>URLSearchParams\<close>

text \<open>
  The list of name/value pairs of a \<^verbatim>\<open>URLSearchParams\<close> object. \<^verbatim>\<open>set\<close> overwrites the
  first pair of that name and removes the others, or appends; \<^verbatim>\<open>toString\<close> is the
  application/x-www-form-urlencoded serializer.
\<close>

type_synonym params = "(string \<times> string) list"

fun params_set :: "string \<Rightarrow> string \<Rightarrow> params \<Rightarrow> params" where
  "params_set name v [] = [(name, v)]"
| "params_set name v ((k, x) # ps) =
     (if k = name then (name, v) # filter (\<lambda>p. fst p \<noteq> name) ps
      else (k, x) # params_set name v ps)"

definition params_size :: "params \<Rightarrow> nat" where
  "params_size ps = length ps"

definition urlencoded_safe :: "char \<Rightarrow> bool" where
  "urlencoded_safe c \<longleftrightarrow>
     c \<in> set ''ABCDEFGHIJKLMNOPQRSTUVWXYZabcdefghijklmnopqrstuvwxyz0123456789*-._''"

definition percent_encode :: "char \<Rightarrow> string" where
  "percent_encode c =
     [CHR ''%'', digit_char ((of_char c :: nat) div 16), digit_char ((of_char c :: nat) mod 16)]"

definition urlencoded_byte :: "char \<Rightarrow> string" where
  "urlencoded_byte c =
     (if c = CHR '' '' then ''+''
      else if urlencoded_safe c then [c]
      else percent_encode c)"

definition urlencoded_string :: "string \<Rightarrow> string" where
  "urlencoded_string s = concat (map urlencoded_byte s)"

fun params_toString :: "params \<Rightarrow> string" where
  "params_toString [] = []"
| "params_toString [(k, v)] = urlencoded_string k @ ''='' @ urlencoded_string v"
| "params_toString ((k, v) # p # ps) =
     urlencoded_string k @ ''='' @ urlencoded_string v @ ''&'' @ params_toString (p # ps)"

subsection \<open>Collaborators\<close>

text \<open>The HTTP client returned by \<^verbatim>\<open>useApi()\<close>: only its readiness enters the keys.\<close>

record api =
  isReady :: bool

text \<open>
  The constants \<^verbatim>\<open>DEFAULT_INCIDENTS_PAGE_SIZE\<close> and \<^verbatim>\<open>DEFAULT_INCIDENTS_SORTING\<close> are
  imported from the incident model and are parameters here.
\<close>

record sorting =
  id_str :: string
  desc :: bool

record defaults =
  DEFAULT_INCIDENTS_PAGE_SIZE :: int
  DEFAULT_INCIDENTS_SORTING :: sorting

text \<open>
  The \<^verbatim>\<open>SWRConfiguration\<close> passed as \<^verbatim>\<open>options\<close>. Its \<^verbatim>\<open>fallbackData\<close> may be
  any value, and \<^verbatim>\<open>useIncidents\<close> tests its truthiness. The falsy values are
  \<^verbatim>\<open>undefined\<close> (also read from an object without the property), \<^verbatim>\<open>null\<close>,
  \<^verbatim>\<open>false\<close>, the numbers zero and NaN, the big integer zero and the empty string. Every
  other value is truthy; \<open>VObject\<close> stands for an object (such as a page of incidents)
  and for any value not listed, a fraction among them.
\<close>

datatype 'd js_value =
    VUndefined | VNull | VBoolean bool | VNumber int | VNaN | VBigInt int | VString string
  | VObject 'd

fun truthy :: "'d js_value \<Rightarrow> bool" where
  "truthy VUndefined = False"
| "truthy VNull = False"
| "truthy (VBoolean b) = b"
| "truthy (VNumber n) = (n \<noteq> 0)"
| "truthy VNaN = False"
| "truthy (VBigInt n) = (n \<noteq> 0)"
| "truthy (VString s) = (s \<noteq> '''')"
| "truthy (VObject d) = True"

record 'd swr_config =
  revalidateOnFocus :: bool
  fallbackData :: "'d js_value"

text \<open>
  What \<^verbatim>\<open>useSWR\<close> is called with and what it answers during one render. The library is
  external: its answer of this render is an input (\<open>swr_response\<close>: the loading flag and
  the reference of the bound \<^verbatim>\<open>mutate\<close> function). It calls the fetcher, which performs
  \<^verbatim>\<open>api.get(url)\<close>, on a key that is not null and skips the fetch on null.
\<close>

type_synonym mutator = nat

record swr_response =
  swr_isLoading :: bool
  swr_mutate :: mutator

record read_hook =
  key :: "string option"
  isLoading :: bool
  mutate :: mutator

definition useSWR :: "string option \<Rightarrow> swr_response \<Rightarrow> read_hook" where
  "useSWR k swr = \<lparr>key = k, isLoading = swr_isLoading swr, mutate = swr_mutate swr\<rparr>"

definition fetches :: "read_hook \<Rightarrow> string list" where
  "fetches h = (case key h of None \<Rightarrow> [] | Some url \<Rightarrow> [url])"

subsection \<open>useIncidents\<close>

text \<open>Default parameter values: an argument left out or \<^verbatim>\<open>undefined\<close> takes the default.\<close>

definition default_tristate :: "tristate \<Rightarrow> tristate \<Rightarrow> tristate" where
  "default_tristate arg d = (if arg = Undefined then d else arg)"

definition default_arg :: "'a option \<Rightarrow> 'a \<Rightarrow> 'a option" where
  "default_arg arg d = (case arg of None \<Rightarrow> Some d | Some v \<Rightarrow> Some v)"

definition filtersParams ::
  "(int \<Rightarrow> string) \<Rightarrow> defaults \<Rightarrow> tristate \<Rightarrow> tristate \<Rightarrow> int option \<Rightarrow> int option \<Rightarrow> sorting option
     \<Rightarrow> string option \<Rightarrow> params" where
  "filtersParams large D candidate_arg predicted_arg limit_arg offset_arg sorting_arg cel_arg =
     (let candidate = default_tristate candidate_arg (Bool True);
          predicted = default_tristate predicted_arg Null;
          limit = default_arg limit_arg (DEFAULT_INCIDENTS_PAGE_SIZE D);
          offset = default_arg offset_arg 0;
          sorting = default_arg sorting_arg (DEFAULT_INCIDENTS_SORTING D);
          cel = default_arg cel_arg '''';
          p0 = [];
          p1 = (case candidate of Bool b \<Rightarrow> params_set ''candidate'' (boolean_toString b) p0
                | _ \<Rightarrow> p0);
          p2 = (case predicted of Bool b \<Rightarrow> params_set ''predicted'' (boolean_toString b) p1
                | _ \<Rightarrow> p1);
          p3 = (case limit of Some n \<Rightarrow> params_set ''limit'' (number_toString large n) p2
                | None \<Rightarrow> p2);
          p4 = (case offset of Some n \<Rightarrow> params_set ''offset'' (number_toString large n) p3
                | None \<Rightarrow> p3);
          p5 = (case sorting of
                  Some s \<Rightarrow> params_set ''sorting'' (if desc s then ''-'' @ id_str s else id_str s) p4
                | None \<Rightarrow> p4);
          p6 = (case cel of Some c \<Rightarrow> (if c \<noteq> '''' then params_set ''cel'' c p5 else p5)
                | None \<Rightarrow> p5)
      in p6)"

definition incidents_key :: "api \<Rightarrow> params \<Rightarrow> string option" where
  "incidents_key a ps =
     (if isReady a
      then Some (''/incidents'' @ (if params_size ps \<noteq> 0 then ''?'' @ params_toString ps else ''''))
      else None)"

definition useIncidents ::
  "(int \<Rightarrow> string) \<Rightarrow> api \<Rightarrow> swr_response \<Rightarrow> defaults \<Rightarrow> tristate \<Rightarrow> tristate \<Rightarrow> int option \<Rightarrow> int option
     \<Rightarrow> sorting option \<Rightarrow> string option \<Rightarrow> 'd swr_config option \<Rightarrow> read_hook" where
  "useIncidents large a swr D candidate predicted limit offset sorting cel options_arg =
     (let options = (case options_arg of
                       None \<Rightarrow> \<lparr>revalidateOnFocus = False, fallbackData = VUndefined\<rparr>
                     | Some opts \<Rightarrow> opts);
          swrValue = useSWR (incidents_key a
                       (filtersParams large D candidate predicted limit offset sorting cel)) swr
      in swrValue\<lparr>isLoading :=
           isLoading swrValue \<or> (\<not> truthy (fallbackData options) \<and> \<not> isReady a)\<rparr>)"

subsection \<open>The other read hooks\<close>

definition useIncidentAlerts ::
  "(int \<Rightarrow> string) \<Rightarrow> api \<Rightarrow> swr_response \<Rightarrow> string \<Rightarrow> int option \<Rightarrow> int option \<Rightarrow> read_hook" where
  "useIncidentAlerts large a swr incidentId limit_arg offset_arg =
     (let limit = (case limit_arg of None \<Rightarrow> 20 | Some n \<Rightarrow> n);
          offset = (case offset_arg of None \<Rightarrow> 0 | Some n \<Rightarrow> n)
      in useSWR (if isReady a
                 then Some (''/incidents/'' @ incidentId @ ''/alerts?limit='' @ number_toString large limit
                            @ ''&offset='' @ number_toString large offset)
                 else None) swr)"

definition useIncidentFutureIncidents :: "api \<Rightarrow> swr_response \<Rightarrow> string \<Rightarrow> read_hook" where
  "useIncidentFutureIncidents a swr incidentId =
     useSWR (if isReady a then Some (''/incidents/'' @ incidentId @ ''/future_incidents'') else None)
       swr"

definition useIncident :: "api \<Rightarrow> swr_response \<Rightarrow> string \<Rightarrow> read_hook" where
  "useIncident a swr incidentId =
     useSWR (if isReady a \<and> incidentId \<noteq> '''' then Some (''/incidents/'' @ incidentId) else None)
       swr"

definition useIncidentWorkflowExecutions ::
  "(int \<Rightarrow> string) \<Rightarrow> api \<Rightarrow> swr_response \<Rightarrow> string \<Rightarrow> int option \<Rightarrow> int option \<Rightarrow> read_hook" where
  "useIncidentWorkflowExecutions large a swr incidentId limit_arg offset_arg =
     (let limit = (case limit_arg of None \<Rightarrow> 20 | Some n \<Rightarrow> n);
          offset = (case offset_arg of None \<Rightarrow> 0 | Some n \<Rightarrow> n)
      in useSWR (if isReady a
                 then Some (''/incidents/'' @ incidentId @ ''/workflows?limit='' @ number_toString large limit
                            @ ''&offset='' @ number_toString large offset)
                 else None) swr)"

definition useIncidentsMeta :: "api \<Rightarrow> swr_response \<Rightarrow> read_hook" where
  "useIncidentsMeta a swr =
     useSWR (if isReady a then Some ''/incidents/meta'' else None) swr"

section \<open>Poll hooks: push events that revalidate a resource\<close>

subsection \<open>Handlers and the world they act on\<close>

text \<open>The payload of the push events, \<^verbatim>\<open>IncidentUpdatePayload\<close>.\<close>

record payload =
  incident_id :: "string option"

text \<open>
  The three \<^verbatim>\<open>handleIncoming\<close> closures with the values each captures: the mutator it
  calls and, in \<^verbatim>\<open>usePollIncidents\<close>, the state cell written by \<^verbatim>\<open>setIncidentChangeToken\<close>.
  A handler is such a closure with the identity of its function object (\<open>href\<close>), which
  is what \<^verbatim>\<open>unbind\<close> and a dependency array compare.
\<close>

datatype closure =
    CommentsIncoming mutator
  | AlertsIncoming mutator
  | IncidentsIncoming mutator nat

record handler =
  href :: nat
  hcode :: closure

type_synonym event = string

record world =
  subscriptions :: "(event \<times> handler) list"
  mutate_calls :: "mutator list"
  state_cells :: "nat \<Rightarrow> string option"
  uuid_calls :: nat
  next_ref :: nat

definition call_mutate :: "mutator \<Rightarrow> world \<Rightarrow> world" where
  "call_mutate m w = w\<lparr>mutate_calls := mutate_calls w @ [m]\<rparr>"

text \<open>
  \<^verbatim>\<open>uuidv4()\<close> is random; \<open>gen k\<close> is the value its \<open>k\<close>-th call returns.
\<close>

definition uuidv4 :: "(nat \<Rightarrow> string) \<Rightarrow> world \<Rightarrow> string \<times> world" where
  "uuidv4 gen w = (gen (uuid_calls w), w\<lparr>uuid_calls := Suc (uuid_calls w)\<rparr>)"

definition setState :: "nat \<Rightarrow> string \<Rightarrow> world \<Rightarrow> world" where
  "setState cell v w = w\<lparr>state_cells := (state_cells w)(cell := Some v)\<rparr>"

fun call_closure :: "(nat \<Rightarrow> string) \<Rightarrow> closure \<Rightarrow> 'p \<Rightarrow> world \<Rightarrow> world" where
  "call_closure gen (CommentsIncoming mutateIncidentActivity) data w =
     call_mutate mutateIncidentActivity w"
| "call_closure gen (AlertsIncoming mutate_ref) data w = call_mutate mutate_ref w"
| "call_closure gen (IncidentsIncoming mutateIncidents cell) data w =
     (let w1 = call_mutate mutateIncidents w;
          (u, w2) = uuidv4 gen w1
      in setState cell u w2)"

subsection \<open>The push channel\<close>

text \<open>
  Modelled from the spec: \<^verbatim>\<open>bind(event, handler)\<close> of the push-subscription capability
  returned by \<^verbatim>\<open>useWebsocket()\<close> (module \<^verbatim>\<open>./usePusher\<close>, which is not among the sources)
  subscribes the handler to the named event.
\<close>

definition channel_bind :: "event \<Rightarrow> handler \<Rightarrow> world \<Rightarrow> world" where
  "channel_bind e h w = w\<lparr>subscriptions := subscriptions w @ [(e, h)]\<rparr>"

text \<open>
  Modelled from the spec: \<^verbatim>\<open>unbind(event, handler)\<close> of the same capability (module
  \<^verbatim>\<open>./usePusher\<close>, not among the sources) removes the subscriptions of that pair, keyed
  by the handler reference.
\<close>

definition channel_unbind :: "event \<Rightarrow> handler \<Rightarrow> world \<Rightarrow> world" where
  "channel_unbind e h w = w\<lparr>subscriptions := filter (\<lambda>s. s \<noteq> (e, h)) (subscriptions w)\<rparr>"

text \<open>
  Modelled from the spec: the delivery of a server event by the push channel (module
  \<^verbatim>\<open>./usePusher\<close>, not among the sources). The handlers subscribed to the name of the
  event are those it is delivered to, in the order of subscription.
\<close>

definition delivered :: "event \<Rightarrow> world \<Rightarrow> handler list" where
  "delivered e w = map snd (filter (\<lambda>s. fst s = e) (subscriptions w))"

text \<open>
  Modelled from the spec: an emission of a named event with its payload (push channel of
  module \<^verbatim>\<open>./usePusher\<close>, not among the sources) calls every handler it is delivered to
  with the payload.
\<close>

definition emit :: "(nat \<Rightarrow> string) \<Rightarrow> event \<Rightarrow> 'p \<Rightarrow> world \<Rightarrow> world" where
  "emit gen e data w = fold (\<lambda>h. call_closure gen (hcode h) data) (delivered e w) w"

subsection \<open>React: useCallback, useEffect, useState\<close>

text \<open>
  A dependency array holds function references, handlers and booleans, compared
  element by element. The \<^verbatim>\<open>bind\<close> and \<^verbatim>\<open>unbind\<close> functions that \<^verbatim>\<open>useWebsocket()\<close>
  returns in a render are references too.
\<close>

datatype dep = DFun nat | DSetter nat | DHandler handler | DBool bool

record websocket =
  bind_ref :: nat
  unbind_ref :: nat

text \<open>
  \<^verbatim>\<open>useCallback(fn, deps)\<close>: the memoised function of the last render when the
  dependencies are the same, otherwise the function object of this render.
\<close>

definition useCallback ::
  "closure \<Rightarrow> dep list \<Rightarrow> (handler \<times> dep list) option \<Rightarrow> world \<Rightarrow> (handler \<times> dep list) \<times> world" where
  "useCallback fn deps slot w =
     (let fresh = ((\<lparr>href = next_ref w, hcode = fn\<rparr>, deps), w\<lparr>next_ref := Suc (next_ref w)\<rparr>)
      in case slot of
           None \<Rightarrow> fresh
         | Some (h, d) \<Rightarrow> if d = deps then ((h, d), w) else fresh)"

text \<open>
  \<^verbatim>\<open>useEffect(effect, deps)\<close>: the effect runs on mount and whenever a dependency has
  changed, after the cleanup that the previous run returned. A cleanup of these hooks is
  \<^verbatim>\<open>() => unbind(event, handler)\<close>, held as the pair; an effect may return none.
\<close>

type_synonym cleanup = "(event \<times> handler) option"

definition run_cleanup :: "cleanup \<Rightarrow> world \<Rightarrow> world" where
  "run_cleanup c w = (case c of None \<Rightarrow> w | Some (e, h) \<Rightarrow> channel_unbind e h w)"

definition useEffect ::
  "(world \<Rightarrow> cleanup \<times> world) \<Rightarrow> dep list \<Rightarrow> (dep list \<times> cleanup) option \<Rightarrow> world
     \<Rightarrow> (dep list \<times> cleanup) \<times> world" where
  "useEffect effect deps slot w =
     (case slot of
        None \<Rightarrow> (let (c, w1) = effect w in ((deps, c), w1))
      | Some (d, c0) \<Rightarrow>
          if d = deps then ((d, c0), w)
          else (let w1 = run_cleanup c0 w; (c, w2) = effect w1 in ((deps, c), w2)))"

text \<open>
  \<^verbatim>\<open>useState(undefined)\<close>: a state cell of the hook instance, allocated and initialised
  on mount; the setter writes the cell.
\<close>

definition useState :: "nat option \<Rightarrow> world \<Rightarrow> nat \<times> world" where
  "useState slot w =
     (case slot of
        None \<Rightarrow> (next_ref w, w\<lparr>state_cells := (state_cells w)(next_ref w := None),
                               next_ref := Suc (next_ref w)\<rparr>)
      | Some cell \<Rightarrow> (cell, w))"

text \<open>What a hook instance keeps between renders; unmounting runs the effect's cleanup.\<close>

record poll_memory =
  callback_slot :: "handler \<times> dep list"
  effect_slot :: "dep list \<times> cleanup"

record poll_incidents_memory = poll_memory +
  state_slot :: nat

definition unmount :: "'a poll_memory_scheme \<Rightarrow> world \<Rightarrow> world" where
  "unmount mem w = run_cleanup (snd (effect_slot mem)) w"

subsection \<open>The poll hooks\<close>

text \<open>
  Each hook takes what its collaborators return in this render, its own arguments and
  its memory (\<open>None\<close> on mount). \<^verbatim>\<open>useAlertAudit\<close> of \<^verbatim>\<open>useAlerts()\<close> is not among the
  sources: the mutator it returns for an incident is a parameter.
\<close>

definition usePollIncidentComments ::
  "websocket \<Rightarrow> (string \<Rightarrow> mutator) \<Rightarrow> string \<Rightarrow> poll_memory option \<Rightarrow> world
     \<Rightarrow> poll_memory \<times> world" where
  "usePollIncidentComments ws useAlertAudit incidentId mem w =
     (let mutateIncidentActivity = useAlertAudit incidentId;
          (cb, w1) = useCallback (CommentsIncoming mutateIncidentActivity)
                       [DFun mutateIncidentActivity] (map_option callback_slot mem) w;
          handleIncoming = fst cb;
          (eff, w2) = useEffect
                        (\<lambda>w. (Some (''incident-comment'', handleIncoming),
                              channel_bind ''incident-comment'' handleIncoming w))
                        [DFun (bind_ref ws), DFun (unbind_ref ws), DHandler handleIncoming]
                        (map_option effect_slot mem) w1
      in (\<lparr>callback_slot = cb, effect_slot = eff\<rparr>, w2))"

definition usePollIncidentAlerts ::
  "(int \<Rightarrow> string) \<Rightarrow> websocket \<Rightarrow> api \<Rightarrow> swr_response \<Rightarrow> string \<Rightarrow> poll_memory option \<Rightarrow> world
     \<Rightarrow> poll_memory \<times> world" where
  "usePollIncidentAlerts large ws a swr incidentId mem w =
     (let mutate_ref = mutate (useIncidentAlerts large a swr incidentId None None);
          (cb, w1) = useCallback (AlertsIncoming mutate_ref) [DFun mutate_ref]
                       (map_option callback_slot mem) w;
          handleIncoming = fst cb;
          (eff, w2) = useEffect
                        (\<lambda>w. (Some (''incident-change'', handleIncoming),
                              channel_bind ''incident-change'' handleIncoming w))
                        [DFun (bind_ref ws), DFun (unbind_ref ws), DHandler handleIncoming]
                        (map_option effect_slot mem) w1
      in (\<lparr>callback_slot = cb, effect_slot = eff\<rparr>, w2))"

text \<open>The result is the returned \<^verbatim>\<open>incidentChangeToken\<close>, the memory and the world.\<close>

definition usePollIncidents ::
  "websocket \<Rightarrow> mutator \<Rightarrow> bool option \<Rightarrow> poll_incidents_memory option \<Rightarrow> world
     \<Rightarrow> string option \<times> poll_incidents_memory \<times> world" where
  "usePollIncidents ws mutateIncidents paused_arg mem w =
     (let paused = (case paused_arg of None \<Rightarrow> False | Some b \<Rightarrow> b);
          (cell, w0) = useState (map_option state_slot mem) w;
          incidentChangeToken = state_cells w0 cell;
          (cb, w1) = useCallback (IncidentsIncoming mutateIncidents cell)
                       [DFun mutateIncidents, DSetter cell] (map_option callback_slot mem) w0;
          handleIncoming = fst cb;
          (eff, w2) = useEffect
                        (\<lambda>w. if paused then (None, w)
                             else (Some (''incident-change'', handleIncoming),
                                   channel_bind ''incident-change'' handleIncoming w))
                        [DFun (bind_ref ws), DFun (unbind_ref ws), DHandler handleIncoming, DBool paused]
                        (map_option effect_slot mem) w1
      in (incidentChangeToken, \<lparr>callback_slot = cb, effect_slot = eff, state_slot = cell\<rparr>, w2))"

text \<open>
  A world is well formed when the handlers subscribed so far, and the state cells their
  closures write, were allocated before \<open>next_ref\<close>: a function object or cell created
  later is a new one.
\<close>

fun closure_cells :: "closure \<Rightarrow> nat list" where
  "closure_cells (IncidentsIncoming m cell) = [cell]"
| "closure_cells _ = []"

definition wf_world :: "world \<Rightarrow> bool" where
  "wf_world w \<longleftrightarrow>
     list_all (\<lambda>s. href (snd s) < next_ref w \<and> list_all (\<lambda>c. c < next_ref w) (closure_cells (hcode (snd s))))
       (subscriptions w)"

text \<open>The mutator a handler calls when an event is delivered to it.\<close>

fun closure_mutator :: "closure \<Rightarrow> mutator" where
  "closure_mutator (CommentsIncoming m) = m"
| "closure_mutator (AlertsIncoming m) = m"
| "closure_mutator (IncidentsIncoming m cell) = m"

text \<open>
  A sequence of emissions of one event, one per payload of the list, and the mutators
  that one emission of the event calls: one per subscribed handler, in order.
\<close>

definition emits :: "(nat \<Rightarrow> string) \<Rightarrow> event \<Rightarrow> 'p list \<Rightarrow> world \<Rightarrow> world" where
  "emits gen e ps w = fold (\<lambda>data. emit gen e data) ps w"

definition revalidations :: "event \<Rightarrow> world \<Rightarrow> mutator list" where
  "revalidations e w = map (\<lambda>h. closure_mutator (hcode h)) (delivered e w)"

section \<open>Properties of the resource keys\<close>

lemmas key_defs =
  useSWR_def incidents_key_def filtersParams_def default_tristate_def default_arg_def
  boolean_toString_def number_toString_def int_digits_def digit_char_def params_size_def
  urlencoded_string_def urlencoded_byte_def urlencoded_safe_def

lemma useSWR_sel:
  "key (useSWR k swr) = k"
  "isLoading (useSWR k swr) = swr_isLoading swr"
  "mutate (useSWR k swr) = swr_mutate swr"
  by (simp_all add: useSWR_def)

lemma fetches_no_key: "key h = None \<Longrightarrow> fetches h = []"
  by (simp add: fetches_def)

subsection \<open>The parameters and the query string of useIncidents\<close>

text \<open>
  Every \<^verbatim>\<open>set\<close> of \<^verbatim>\<open>useIncidents\<close> is on a name that is not in the list yet, so it
  appends: the list is candidate, predicted, limit, offset, sorting, cel, each present
  under its condition.
\<close>

lemma params_set_new:
  "name \<notin> fst ` set ps \<Longrightarrow> params_set name v ps = ps @ [(name, v)]"
  by (induction ps) auto

lemma filtersParams_list:
  "filtersParams large D candidate predicted limit offset sorting cel =
     (case candidate of Undefined \<Rightarrow> [(''candidate'', ''true'')] | Null \<Rightarrow> []
        | Bool b \<Rightarrow> [(''candidate'', boolean_toString b)])
     @ (case predicted of Bool b \<Rightarrow> [(''predicted'', boolean_toString b)] | _ \<Rightarrow> [])
     @ [(''limit'', number_toString large (case limit of None \<Rightarrow> DEFAULT_INCIDENTS_PAGE_SIZE D | Some n \<Rightarrow> n)),
        (''offset'', number_toString large (case offset of None \<Rightarrow> 0 | Some n \<Rightarrow> n)),
        (''sorting'', case sorting of
            None \<Rightarrow> (if desc (DEFAULT_INCIDENTS_SORTING D)
                      then ''-'' @ id_str (DEFAULT_INCIDENTS_SORTING D)
                      else id_str (DEFAULT_INCIDENTS_SORTING D))
          | Some s \<Rightarrow> (if desc s then ''-'' @ id_str s else id_str s))]
     @ (case cel of None \<Rightarrow> [] | Some c \<Rightarrow> if c = '''' then [] else [(''cel'', c)])"
proof -
  define p1 where "p1 = (case candidate of Undefined \<Rightarrow> [(''candidate'', ''true'')] | Null \<Rightarrow> []
        | Bool b \<Rightarrow> [(''candidate'', boolean_toString b)])"
  define p2 where "p2 = p1 @ (case predicted of Bool b \<Rightarrow> [(''predicted'', boolean_toString b)] | _ \<Rightarrow> [])"
  define l where "l = (case limit of None \<Rightarrow> DEFAULT_INCIDENTS_PAGE_SIZE D | Some n \<Rightarrow> n)"
  define off where "off = (case offset of None \<Rightarrow> 0 | Some n \<Rightarrow> n)"
  define s where "s = (case sorting of None \<Rightarrow> DEFAULT_INCIDENTS_SORTING D | Some s \<Rightarrow> s)"
  define sv where "sv = (if desc s then ''-'' @ id_str s else id_str s)"
  have names1: "fst ` set p1 \<subseteq> {''candidate''}"
    by (cases candidate) (auto simp: p1_def)
  have names2: "fst ` set p2 \<subseteq> {''candidate'', ''predicted''}"
    using names1 by (cases predicted) (auto simp: p2_def)
  have n1: "''predicted'' \<notin> fst ` set p1"
    using names1 by auto
  have n3: "''limit'' \<notin> fst ` set p2"
    using names2 by auto
  have n4: "''offset'' \<notin> fst ` set (p2 @ [(''limit'', number_toString large l)])"
    using names2 by auto
  have n5: "''sorting'' \<notin> fst ` set (p2 @ [(''limit'', number_toString large l),
              (''offset'', number_toString large off)])"
    using names2 by auto
  have n6: "''cel'' \<notin> fst ` set (p2 @ [(''limit'', number_toString large l),
              (''offset'', number_toString large off), (''sorting'', sv)])"
    using names2 by auto
  have s1: "(case default_tristate candidate (Bool True) of
               Bool b \<Rightarrow> params_set ''candidate'' (boolean_toString b) [] | _ \<Rightarrow> []) = p1"
    by (cases candidate) (simp_all add: default_tristate_def p1_def boolean_toString_def)
  have s2: "(case default_tristate predicted Null of
               Bool b \<Rightarrow> params_set ''predicted'' (boolean_toString b) p1 | _ \<Rightarrow> p1) = p2"
    by (cases predicted) (simp_all add: default_tristate_def p2_def params_set_new [OF n1])
  have s3: "params_set ''limit'' (number_toString large l) p2 = p2 @ [(''limit'', number_toString large l)]"
    by (rule params_set_new [OF n3])
  have s4: "params_set ''offset'' (number_toString large off) (p2 @ [(''limit'', number_toString large l)])
              = p2 @ [(''limit'', number_toString large l), (''offset'', number_toString large off)]"
    by (simp add: params_set_new [OF n4])
  have s5: "params_set ''sorting'' sv (p2 @ [(''limit'', number_toString large l), (''offset'', number_toString large off)])
              = p2 @ [(''limit'', number_toString large l), (''offset'', number_toString large off), (''sorting'', sv)]"
    by (simp add: params_set_new [OF n5])
  have s6: "params_set ''cel'' c
              (p2 @ [(''limit'', number_toString large l), (''offset'', number_toString large off), (''sorting'', sv)])
              = p2 @ [(''limit'', number_toString large l), (''offset'', number_toString large off), (''sorting'', sv),
                      (''cel'', c)]" for c
    by (simp add: params_set_new [OF n6])
  have d: "default_arg limit (DEFAULT_INCIDENTS_PAGE_SIZE D) = Some l"
    "default_arg offset 0 = Some off"
    "default_arg sorting (DEFAULT_INCIDENTS_SORTING D) = Some s"
    by (simp_all add: default_arg_def l_def off_def s_def split: option.splits)
  have sv': "sv = (case sorting of
            None \<Rightarrow> (if desc (DEFAULT_INCIDENTS_SORTING D)
                      then ''-'' @ id_str (DEFAULT_INCIDENTS_SORTING D)
                      else id_str (DEFAULT_INCIDENTS_SORTING D))
          | Some s \<Rightarrow> (if desc s then ''-'' @ id_str s else id_str s))"
    by (cases sorting) (simp_all add: sv_def s_def)
  have "filtersParams large D candidate predicted limit offset sorting cel =
      p2 @ [(''limit'', number_toString large l), (''offset'', number_toString large off), (''sorting'', sv)]
      @ (case cel of None \<Rightarrow> [] | Some c \<Rightarrow> if c = '''' then [] else [(''cel'', c)])"
    unfolding filtersParams_def Let_def s1 s2 d option.case s3 s4 sv_def [symmetric] s5
    by (cases cel) (simp_all add: default_arg_def s6)
  then show ?thesis
    by (simp add: p2_def p1_def l_def off_def sv')
qed

lemma params_toString_Cons:
  "ps \<noteq> [] \<Longrightarrow> params_toString ((k, v) # ps) =
      urlencoded_string k @ ''='' @ urlencoded_string v @ ''&'' @ params_toString ps"
  by (cases ps) auto

lemma urlencoded_names:
  "urlencoded_string ''candidate'' = ''candidate''"
  "urlencoded_string ''predicted'' = ''predicted''"
  "urlencoded_string ''limit'' = ''limit''"
  "urlencoded_string ''offset'' = ''offset''"
  "urlencoded_string ''sorting'' = ''sorting''"
  "urlencoded_string ''cel'' = ''cel''"
  "urlencoded_string ''false'' = ''false''"
  "urlencoded_string ''true'' = ''true''"
  by (simp_all add: urlencoded_string_def urlencoded_byte_def urlencoded_safe_def)

lemma query_string:
  "params_toString (filtersParams large D candidate predicted limit offset sorting cel) =
     (case candidate of Undefined \<Rightarrow> ''candidate=true&'' | Null \<Rightarrow> ''''
        | Bool b \<Rightarrow> ''candidate='' @ boolean_toString b @ ''&'')
     @ (case predicted of Bool b \<Rightarrow> ''predicted='' @ boolean_toString b @ ''&'' | _ \<Rightarrow> '''')
     @ ''limit='' @ urlencoded_string (number_toString large
          (case limit of None \<Rightarrow> DEFAULT_INCIDENTS_PAGE_SIZE D | Some n \<Rightarrow> n))
     @ ''&offset='' @ urlencoded_string (number_toString large (case offset of None \<Rightarrow> 0 | Some n \<Rightarrow> n))
     @ ''&sorting='' @ urlencoded_string (case sorting of
            None \<Rightarrow> (if desc (DEFAULT_INCIDENTS_SORTING D)
                      then ''-'' @ id_str (DEFAULT_INCIDENTS_SORTING D)
                      else id_str (DEFAULT_INCIDENTS_SORTING D))
          | Some s \<Rightarrow> (if desc s then ''-'' @ id_str s else id_str s))
     @ (case cel of None \<Rightarrow> '''' | Some c \<Rightarrow> if c = '''' then '''' else ''&cel='' @ urlencoded_string c)"
  by (cases candidate; cases predicted; cases cel)
     (simp_all add: filtersParams_list params_toString_Cons urlencoded_names boolean_toString_def)

text \<open>
  C1. With the client ready, \<^verbatim>\<open>useIncidents(true, null, 20, 0, {id: "creation_time", desc:
  true}, "")\<close> builds the parameters candidate, limit, offset and sorting in this order
  (predicted and cel are left out, the descending sort has a leading minus), its key is
  \<^verbatim>\<open>/incidents?candidate=true&limit=20&offset=0&sorting=-creation_time\<close>, and that is the
  one URL handed to the fetcher.
\<close>

theorem useIncidents_example_key:
  "filtersParams large D (Bool True) Null (Some 20) (Some 0)
      (Some \<lparr>id_str = ''creation_time'', desc = True\<rparr>) (Some '''')
     = [(''candidate'', ''true''), (''limit'', ''20''), (''offset'', ''0''),
        (''sorting'', ''-creation_time'')]
   \<and> key (useIncidents large \<lparr>isReady = True\<rparr> swr D (Bool True) Null (Some 20) (Some 0)
            (Some \<lparr>id_str = ''creation_time'', desc = True\<rparr>) (Some '''') options)
     = Some ''/incidents?candidate=true&limit=20&offset=0&sorting=-creation_time''
   \<and> fetches (useIncidents large \<lparr>isReady = True\<rparr> swr D (Bool True) Null (Some 20) (Some 0)
            (Some \<lparr>id_str = ''creation_time'', desc = True\<rparr>) (Some '''') options)
     = [''/incidents?candidate=true&limit=20&offset=0&sorting=-creation_time'']"
  by (simp add: useIncidents_def fetches_def key_defs Let_def)

text \<open>
  C2. The key of \<^verbatim>\<open>useIncidents\<close> is a function of the six logical parameters (and of
  the readiness of the client): two invocations with the same candidate, predicted,
  limit, offset, sorting and cel compute the same key, whatever the options and the state
  of the data-fetching layer are in each.
\<close>

theorem useIncidents_key_stable:
  assumes "isReady a1 = isReady a2"
  shows "key (useIncidents large a1 swr1 D candidate predicted limit offset sorting cel options1)
       = key (useIncidents large a2 swr2 D candidate predicted limit offset sorting cel options2)"
  using assms by (simp add: useIncidents_def useSWR_def incidents_key_def Let_def)

theorem useIncidents_key_stable_witness:
  "isReady \<lparr>isReady = True\<rparr> = isReady \<lparr>isReady = True\<rparr>
   \<and> key (useIncidents (\<lambda>i. ''1e+21'') \<lparr>isReady = True\<rparr> \<lparr>swr_isLoading = True, swr_mutate = 1\<rparr>
          \<lparr>DEFAULT_INCIDENTS_PAGE_SIZE = 20,
           DEFAULT_INCIDENTS_SORTING = \<lparr>id_str = ''creation_time'', desc = True\<rparr>\<rparr>
          (Bool False) Null (Some 5) (Some 10) (Some \<lparr>id_str = ''severity'', desc = False\<rparr>)
          (Some ''a == 1'') (None :: unit swr_config option))
     = key (useIncidents (\<lambda>i. ''1e+21'') \<lparr>isReady = True\<rparr> \<lparr>swr_isLoading = False, swr_mutate = 2\<rparr>
          \<lparr>DEFAULT_INCIDENTS_PAGE_SIZE = 20,
           DEFAULT_INCIDENTS_SORTING = \<lparr>id_str = ''creation_time'', desc = True\<rparr>\<rparr>
          (Bool False) Null (Some 5) (Some 10) (Some \<lparr>id_str = ''severity'', desc = False\<rparr>)
          (Some ''a == 1'') (Some \<lparr>revalidateOnFocus = True, fallbackData = VObject [''page'']\<rparr>))"
  using useIncidents_key_stable [where ?a1.0 = "\<lparr>isReady = True\<rparr>" and ?a2.0 = "\<lparr>isReady = True\<rparr>"
      and large = "\<lambda>i. ''1e+21''"
      and ?swr1.0 = "\<lparr>swr_isLoading = True, swr_mutate = 1\<rparr>"
      and D = "\<lparr>DEFAULT_INCIDENTS_PAGE_SIZE = 20,
           DEFAULT_INCIDENTS_SORTING = \<lparr>id_str = ''creation_time'', desc = True\<rparr>\<rparr>"
      and candidate = "Bool False" and predicted = Null and limit = "Some 5" and offset = "Some 10"
      and sorting = "Some \<lparr>id_str = ''severity'', desc = False\<rparr>"
      and cel = "Some ''a == 1''" and ?options1.0 = "None :: unit swr_config option"
      and ?swr2.0 = "\<lparr>swr_isLoading = False, swr_mutate = 2\<rparr>"
      and ?options2.0 = "Some \<lparr>revalidateOnFocus = True, fallbackData = VObject [''page'']\<rparr>"]
  by simp

subsection \<open>Readiness\<close>

lemma useIncidents_not_ready:
  assumes "\<not> isReady a"
  shows "key (useIncidents large a swr D candidate predicted limit offset sorting cel options) = None"
    and "isLoading (useIncidents large a swr D candidate predicted limit offset sorting cel options)
           = (swr_isLoading swr
              \<or> (case options of None \<Rightarrow> True | Some opts \<Rightarrow> \<not> truthy (fallbackData opts)))"
  using assms
  by (cases options; simp add: useIncidents_def useSWR_sel incidents_key_def Let_def)+

lemma other_hooks_not_ready:
  assumes "\<not> isReady a"
  shows "key (useIncident a swr incidentId) = None"
    and "key (useIncidentAlerts large a swr incidentId limit offset) = None"
    and "key (useIncidentFutureIncidents a swr incidentId) = None"
    and "key (useIncidentWorkflowExecutions large a swr incidentId limit offset) = None"
    and "key (useIncidentsMeta a swr) = None"
  using assms
  by (simp_all add: useIncident_def useIncidentAlerts_def useIncidentFutureIncidents_def
      useIncidentWorkflowExecutions_def useIncidentsMeta_def useSWR_sel Let_def)

text \<open>
  C3, as stated, fails: with the client not ready, \<^verbatim>\<open>useIncidents\<close> called with a page of
  incidents as fallback data reports \<^verbatim>\<open>isLoading = false\<close> when the data-fetching layer,
  which has no request in flight for a null key, reports false.
\<close>

theorem useIncidents_fallback_not_loading_counterexample:
  "\<not> isReady \<lparr>isReady = False\<rparr>
   \<and> \<not> isLoading (useIncidents (\<lambda>i. ''1e+21'') \<lparr>isReady = False\<rparr>
          \<lparr>swr_isLoading = False, swr_mutate = 0\<rparr>
          \<lparr>DEFAULT_INCIDENTS_PAGE_SIZE = 20,
           DEFAULT_INCIDENTS_SORTING = \<lparr>id_str = ''creation_time'', desc = True\<rparr>\<rparr>
          (Bool True) Null (Some 20) (Some 0) (Some \<lparr>id_str = ''creation_time'', desc = True\<rparr>)
          (Some '''') (Some \<lparr>revalidateOnFocus = False, fallbackData = VObject [''incident-1'']\<rparr>))"
  by (simp add: useIncidents_def useSWR_def Let_def)

text \<open>
  C3, amended. While the client is not ready, the key of each of the six read hooks is
  null and no URL is handed to the fetcher. \<^verbatim>\<open>useIncidents\<close> then reports loading, unless
  its options carry a truthy \<^verbatim>\<open>fallbackData\<close>: then it reports the loading flag of the
  data-fetching layer.
\<close>

theorem read_hooks_not_ready:
  assumes "\<not> isReady a"
  shows "key (useIncidents large a swr D candidate predicted limit offset sorting cel options) = None
       \<and> key (useIncident a swr incidentId) = None
       \<and> key (useIncidentAlerts large a swr incidentId limit offset) = None
       \<and> key (useIncidentFutureIncidents a swr incidentId) = None
       \<and> key (useIncidentWorkflowExecutions large a swr incidentId limit offset) = None
       \<and> key (useIncidentsMeta a swr) = None
       \<and> fetches (useIncidents large a swr D candidate predicted limit offset sorting cel options) = []
       \<and> fetches (useIncident a swr incidentId) = []
       \<and> fetches (useIncidentAlerts large a swr incidentId limit offset) = []
       \<and> fetches (useIncidentFutureIncidents a swr incidentId) = []
       \<and> fetches (useIncidentWorkflowExecutions large a swr incidentId limit offset) = []
       \<and> fetches (useIncidentsMeta a swr) = []
       \<and> isLoading (useIncidents large a swr D candidate predicted limit offset sorting cel options)
           = (swr_isLoading swr
              \<or> (case options of None \<Rightarrow> True | Some opts \<Rightarrow> \<not> truthy (fallbackData opts)))"
  by (simp only: useIncidents_not_ready [OF assms] other_hooks_not_ready [OF assms]
      fetches_no_key simp_thms)

theorem read_hooks_not_ready_witness:
  "\<not> isReady \<lparr>isReady = False\<rparr>
   \<and> key (useIncidents (\<lambda>i. ''1e+21'') \<lparr>isReady = False\<rparr> \<lparr>swr_isLoading = False, swr_mutate = 0\<rparr>
          \<lparr>DEFAULT_INCIDENTS_PAGE_SIZE = 20,
           DEFAULT_INCIDENTS_SORTING = \<lparr>id_str = ''creation_time'', desc = True\<rparr>\<rparr>
          (Bool True) Null (Some 20) (Some 0) None (Some '''')
          (Some \<lparr>revalidateOnFocus = False, fallbackData = VString '''' :: unit js_value\<rparr>)) = None
   \<and> isLoading (useIncidents (\<lambda>i. ''1e+21'') \<lparr>isReady = False\<rparr> \<lparr>swr_isLoading = False, swr_mutate = 0\<rparr>
          \<lparr>DEFAULT_INCIDENTS_PAGE_SIZE = 20,
           DEFAULT_INCIDENTS_SORTING = \<lparr>id_str = ''creation_time'', desc = True\<rparr>\<rparr>
          (Bool True) Null (Some 20) (Some 0) None (Some '''')
          (Some \<lparr>revalidateOnFocus = False, fallbackData = VString '''' :: unit js_value\<rparr>))
   \<and> key (useIncident \<lparr>isReady = False\<rparr> \<lparr>swr_isLoading = False, swr_mutate = 0\<rparr> ''42'') = None
   \<and> fetches (useIncidentsMeta \<lparr>isReady = False\<rparr> \<lparr>swr_isLoading = False, swr_mutate = 0\<rparr>) = []"
proof -
  have h: "\<not> isReady \<lparr>isReady = False\<rparr>" by simp
  note t = read_hooks_not_ready [OF h, where large = "\<lambda>i. ''1e+21''"
      and swr = "\<lparr>swr_isLoading = False, swr_mutate = 0\<rparr>"
      and D = "\<lparr>DEFAULT_INCIDENTS_PAGE_SIZE = 20,
           DEFAULT_INCIDENTS_SORTING = \<lparr>id_str = ''creation_time'', desc = True\<rparr>\<rparr>"
      and candidate = "Bool True" and predicted = Null and limit = "Some 20" and offset = "Some 0"
      and sorting = None and cel = "Some ''''"
      and options = "Some \<lparr>revalidateOnFocus = False, fallbackData = VString '''' :: unit js_value\<rparr>"
      and incidentId = "''42''"]
  show ?thesis using h t by simp
qed

subsection \<open>The tri-state parameters\<close>

text \<open>
  C4, as stated, fails for \<^verbatim>\<open>undefined\<close>: an undefined \<^verbatim>\<open>candidate\<close> takes the default
  \<^verbatim>\<open>true\<close> of the parameter, and the query string has \<^verbatim>\<open>candidate=true\<close>.
\<close>

theorem candidate_undefined_counterexample:
  "''candidate'' \<in> fst ` set (filtersParams (\<lambda>i. ''1e+21'')
        \<lparr>DEFAULT_INCIDENTS_PAGE_SIZE = 20,
         DEFAULT_INCIDENTS_SORTING = \<lparr>id_str = ''creation_time'', desc = True\<rparr>\<rparr>
        Undefined Null (Some 20) (Some 0) (Some \<lparr>id_str = ''creation_time'', desc = True\<rparr>) (Some ''''))
   \<and> key (useIncidents (\<lambda>i. ''1e+21'') \<lparr>isReady = True\<rparr> \<lparr>swr_isLoading = False, swr_mutate = 0\<rparr>
        \<lparr>DEFAULT_INCIDENTS_PAGE_SIZE = 20,
         DEFAULT_INCIDENTS_SORTING = \<lparr>id_str = ''creation_time'', desc = True\<rparr>\<rparr>
        Undefined Null (Some 20) (Some 0) (Some \<lparr>id_str = ''creation_time'', desc = True\<rparr>) (Some '''')
        (None :: unit swr_config option))
     = Some ''/incidents?candidate=true&limit=20&offset=0&sorting=-creation_time''"
  by (simp add: useIncidents_def key_defs Let_def)

text \<open>
  C4, amended. \<^verbatim>\<open>candidate = null\<close> leaves the candidate parameter out, \<^verbatim>\<open>false\<close> puts
  \<^verbatim>\<open>candidate=false\<close> in, and \<^verbatim>\<open>undefined\<close> is the default \<^verbatim>\<open>true\<close>, which puts
  \<^verbatim>\<open>candidate=true\<close> in. \<^verbatim>\<open>predicted = null\<close> or \<^verbatim>\<open>undefined\<close> leaves the predicted
  parameter out, and \<^verbatim>\<open>false\<close> puts \<^verbatim>\<open>predicted=false\<close> in. In the query string a
  candidate that is present comes first, before a query string that is the one of
  \<^verbatim>\<open>candidate = null\<close>.
\<close>

theorem useIncidents_tristate_parameters:
  "''candidate'' \<notin> fst ` set (filtersParams large D Null predicted limit offset sorting cel)
   \<and> (''candidate'', ''false'') \<in> set (filtersParams large D (Bool False) predicted limit offset sorting cel)
   \<and> (''candidate'', ''true'') \<in> set (filtersParams large D (Bool True) predicted limit offset sorting cel)
   \<and> filtersParams large D Undefined predicted limit offset sorting cel
       = filtersParams large D (Bool True) predicted limit offset sorting cel
   \<and> ''predicted'' \<notin> fst ` set (filtersParams large D candidate Null limit offset sorting cel)
   \<and> ''predicted'' \<notin> fst ` set (filtersParams large D candidate Undefined limit offset sorting cel)
   \<and> (''predicted'', ''false'') \<in> set (filtersParams large D candidate (Bool False) limit offset sorting cel)
   \<and> (''predicted'', ''true'') \<in> set (filtersParams large D candidate (Bool True) limit offset sorting cel)
   \<and> params_toString (filtersParams large D (Bool False) predicted limit offset sorting cel)
       = ''candidate=false&'' @ params_toString (filtersParams large D Null predicted limit offset sorting cel)
   \<and> params_toString (filtersParams large D (Bool True) predicted limit offset sorting cel)
       = ''candidate=true&'' @ params_toString (filtersParams large D Null predicted limit offset sorting cel)"
proof -
  have members:
    "''candidate'' \<notin> fst ` set (filtersParams large D Null predicted limit offset sorting cel)"
    "(''candidate'', ''false'') \<in> set (filtersParams large D (Bool False) predicted limit offset sorting cel)"
    "(''candidate'', ''true'') \<in> set (filtersParams large D (Bool True) predicted limit offset sorting cel)"
    "''predicted'' \<notin> fst ` set (filtersParams large D candidate Null limit offset sorting cel)"
    "''predicted'' \<notin> fst ` set (filtersParams large D candidate Undefined limit offset sorting cel)"
    "(''predicted'', ''false'') \<in> set (filtersParams large D candidate (Bool False) limit offset sorting cel)"
    "(''predicted'', ''true'') \<in> set (filtersParams large D candidate (Bool True) limit offset sorting cel)"
    by (cases candidate; cases predicted; cases cel;
        auto simp: filtersParams_list boolean_toString_def)+
  have same: "filtersParams large D Undefined predicted limit offset sorting cel
       = filtersParams large D (Bool True) predicted limit offset sorting cel"
    by (simp add: filtersParams_list boolean_toString_def)
  have strings:
    "params_toString (filtersParams large D (Bool False) predicted limit offset sorting cel)
       = ''candidate=false&'' @ params_toString (filtersParams large D Null predicted limit offset sorting cel)"
    "params_toString (filtersParams large D (Bool True) predicted limit offset sorting cel)
       = ''candidate=true&'' @ params_toString (filtersParams large D Null predicted limit offset sorting cel)"
    by (simp_all add: query_string boolean_toString_def)
  show ?thesis
    using members same strings by (intro conjI)
qed

subsection \<open>A missing incident id\<close>

text \<open>
  C5. \<^verbatim>\<open>useIncident\<close> with the empty incident id (the falsy string) has the key null and
  hands no URL to the fetcher, whether the client is ready or not.
\<close>

theorem useIncident_empty_id_no_fetch:
  "key (useIncident a swr '''') = None \<and> fetches (useIncident a swr '''') = []"
  by (simp add: useIncident_def useSWR_def fetches_def)

text \<open>
  C6. \<^verbatim>\<open>useIncidentAlerts\<close> does not look at the incident id: with the client ready and
  the empty id, its key is \<^verbatim>\<open>/incidents//alerts?limit=20&offset=0\<close> and the fetcher is
  called with it.
\<close>

theorem useIncidentAlerts_empty_id_fetches:
  "key (useIncidentAlerts large \<lparr>isReady = True\<rparr> swr '''' None None)
     = Some ''/incidents//alerts?limit=20&offset=0''
   \<and> fetches (useIncidentAlerts large \<lparr>isReady = True\<rparr> swr '''' None None)
     = [''/incidents//alerts?limit=20&offset=0'']"
  by (simp add: useIncidentAlerts_def fetches_def key_defs Let_def)

section \<open>Properties of the poll hooks\<close>

subsection \<open>Delivery of an event\<close>

lemma call_closure_fields:
  "subscriptions (call_closure gen c p w) = subscriptions w"
  "next_ref (call_closure gen c p w) = next_ref w"
  "mutate_calls (call_closure gen c p w) = mutate_calls w @ [closure_mutator c]"
  by (cases c; simp add: call_mutate_def uuidv4_def setState_def)+

lemma call_closure_cells:
  "cell \<notin> set (closure_cells c) \<Longrightarrow> state_cells (call_closure gen c p w) cell = state_cells w cell"
  by (cases c) (simp_all add: call_mutate_def uuidv4_def setState_def)

lemma call_closure_uuid_mono: "uuid_calls w \<le> uuid_calls (call_closure gen c p w)"
  by (cases c) (simp_all add: call_mutate_def uuidv4_def setState_def)

lemma call_closure_any_payload: "call_closure gen c p w = call_closure gen c q w"
  by (cases c) simp_all

lemma deliver_fields:
  "subscriptions (fold (\<lambda>h. call_closure gen (hcode h) p) hs w) = subscriptions w"
  "next_ref (fold (\<lambda>h. call_closure gen (hcode h) p) hs w) = next_ref w"
  "mutate_calls (fold (\<lambda>h. call_closure gen (hcode h) p) hs w)
     = mutate_calls w @ map (\<lambda>h. closure_mutator (hcode h)) hs"
  by (induction hs arbitrary: w; simp add: call_closure_fields)+

lemma deliver_cells:
  "\<forall>h \<in> set hs. cell \<notin> set (closure_cells (hcode h)) \<Longrightarrow>
   state_cells (fold (\<lambda>h. call_closure gen (hcode h) p) hs w) cell = state_cells w cell"
  by (induction hs arbitrary: w) (simp_all add: call_closure_cells)

lemma deliver_uuid_mono:
  "uuid_calls w \<le> uuid_calls (fold (\<lambda>h. call_closure gen (hcode h) p) hs w)"
proof (induction hs arbitrary: w)
  case Nil
  then show ?case by simp
next
  case (Cons h hs)
  have "uuid_calls w \<le> uuid_calls (call_closure gen (hcode h) p w)"
    by (rule call_closure_uuid_mono)
  also have "\<dots> \<le> uuid_calls (fold (\<lambda>h. call_closure gen (hcode h) p) hs
                       (call_closure gen (hcode h) p w))"
    by (rule Cons.IH)
  finally show ?case by simp
qed

lemma emit_fields:
  "subscriptions (emit gen e p w) = subscriptions w"
  "next_ref (emit gen e p w) = next_ref w"
  "mutate_calls (emit gen e p w) = mutate_calls w @ revalidations e w"
  by (simp_all add: emit_def deliver_fields revalidations_def)

lemma delivered_subs:
  "subscriptions w' = subscriptions w \<Longrightarrow> delivered e w' = delivered e w"
  by (simp add: delivered_def)

lemma revalidations_subs:
  "subscriptions w' = subscriptions w \<Longrightarrow> revalidations e w' = revalidations e w"
  by (simp add: revalidations_def delivered_def)

lemma emit_delivered: "delivered e' (emit gen e p w) = delivered e' w"
  by (simp add: delivered_def emit_fields)

lemma emit_revalidations: "revalidations e' (emit gen e p w) = revalidations e' w"
  by (simp add: revalidations_def emit_delivered)

lemma emits_fields:
  "subscriptions (emits gen e ps w) = subscriptions w"
  "next_ref (emits gen e ps w) = next_ref w"
  "mutate_calls (emits gen e ps w)
     = mutate_calls w @ concat (replicate (length ps) (revalidations e w))"
  by (induction ps arbitrary: w; simp add: emits_def emit_fields emit_revalidations)+

lemma emit_any_payload: "emit gen e p w = emit gen e q w"
  unfolding emit_def
  by (rule fold_cong) (simp_all add: call_closure_any_payload [of gen _ p _ q] ext)

lemma emit_cell_untouched:
  assumes "\<forall>h \<in> set (delivered e w). c \<notin> set (closure_cells (hcode h))"
  shows "state_cells (emit gen e p w) c = state_cells w c"
  using assms by (simp add: emit_def deliver_cells)

lemma emits_cell_untouched:
  assumes "\<forall>h \<in> set (delivered e w). c \<notin> set (closure_cells (hcode h))"
  shows "state_cells (emits gen e ps w) c = state_cells w c"
  using assms
  by (induction ps arbitrary: w) (simp_all add: emits_def emit_cell_untouched emit_delivered)

text \<open>The handler subscribed last runs last, on the world the others leave.\<close>

lemma emit_last:
  assumes "subscriptions w = S @ [(e, h)]"
  shows "emit gen e p w =
           call_closure gen (hcode h) p
             (fold (\<lambda>h. call_closure gen (hcode h) p) (map snd (filter (\<lambda>s. fst s = e) S)) w)"
  using assms by (simp add: emit_def delivered_def)

lemma emit_token:
  assumes "subscriptions w = S @ [(e, h)]" and "hcode h = IncidentsIncoming m c"
  shows "state_cells (emit gen e p w) c = Some (gen (uuid_calls (emit gen e p w) - 1))"
    and "uuid_calls w < uuid_calls (emit gen e p w)"
proof -
  let ?x = "fold (\<lambda>h. call_closure gen (hcode h) p) (map snd (filter (\<lambda>s. fst s = e) S)) w"
  have e: "emit gen e p w = call_closure gen (IncidentsIncoming m c) p ?x"
    using emit_last [OF assms(1)] assms(2) by simp
  show "state_cells (emit gen e p w) c = Some (gen (uuid_calls (emit gen e p w) - 1))"
    by (simp add: e call_mutate_def uuidv4_def setState_def)
  have "uuid_calls w \<le> uuid_calls ?x" by (rule deliver_uuid_mono)
  then show "uuid_calls w < uuid_calls (emit gen e p w)"
    by (simp add: e call_mutate_def uuidv4_def setState_def)
qed

subsection \<open>Well-formed worlds\<close>

lemma wf_fresh_filter:
  assumes "wf_world w" and "next_ref w \<le> href h"
  shows "filter (\<lambda>s. s \<noteq> (e, h)) (subscriptions w) = subscriptions w"
proof -
  have "\<forall>s \<in> set (subscriptions w). s \<noteq> (e, h)"
    using assms by (auto simp: wf_world_def list_all_iff)
  then show ?thesis by simp
qed

lemma wf_cells_fresh:
  assumes "wf_world w" and "next_ref w \<le> c"
  shows "\<forall>h \<in> set (delivered e w). c \<notin> set (closure_cells (hcode h))"
  using assms by (fastforce simp: wf_world_def list_all_iff delivered_def)

subsection \<open>Renders of the hooks\<close>

lemma usePollIncidentAlerts_mount:
  "usePollIncidentAlerts large ws a swr incidentId None w =
     (let h = \<lparr>href = next_ref w, hcode = AlertsIncoming (swr_mutate swr)\<rparr>
      in (\<lparr>callback_slot = (h, [DFun (swr_mutate swr)]),
           effect_slot = ([DFun (bind_ref ws), DFun (unbind_ref ws), DHandler h],
                          Some (''incident-change'', h))\<rparr>,
          w\<lparr>subscriptions := subscriptions w @ [(''incident-change'', h)],
            next_ref := Suc (next_ref w)\<rparr>))"
  by (simp add: usePollIncidentAlerts_def useIncidentAlerts_def useSWR_def useCallback_def
      useEffect_def channel_bind_def Let_def)

lemma usePollIncidentAlerts_rerender:
  assumes "callback_slot mem = (h, [DFun (swr_mutate swr)])"
      and "effect_slot mem = ([DFun (bind_ref ws), DFun (unbind_ref ws), DHandler h], cl)"
  shows "usePollIncidentAlerts large ws a swr incidentId (Some mem) w
           = (\<lparr>callback_slot = callback_slot mem, effect_slot = effect_slot mem\<rparr>, w)"
  using assms
  by (simp add: usePollIncidentAlerts_def useIncidentAlerts_def useSWR_def useCallback_def
      useEffect_def Let_def)

lemma usePollIncidentComments_mount:
  "usePollIncidentComments ws useAlertAudit incidentId None w =
     (let h = \<lparr>href = next_ref w, hcode = CommentsIncoming (useAlertAudit incidentId)\<rparr>
      in (\<lparr>callback_slot = (h, [DFun (useAlertAudit incidentId)]),
           effect_slot = ([DFun (bind_ref ws), DFun (unbind_ref ws), DHandler h],
                          Some (''incident-comment'', h))\<rparr>,
          w\<lparr>subscriptions := subscriptions w @ [(''incident-comment'', h)],
            next_ref := Suc (next_ref w)\<rparr>))"
  by (simp add: usePollIncidentComments_def useCallback_def useEffect_def channel_bind_def Let_def)

lemma usePollIncidents_mount:
  "usePollIncidents ws m paused_arg None w =
     (let paused = (case paused_arg of None \<Rightarrow> False | Some b \<Rightarrow> b);
          cell = next_ref w;
          h = \<lparr>href = Suc (next_ref w), hcode = IncidentsIncoming m cell\<rparr>
      in (None,
          \<lparr>callback_slot = (h, [DFun m, DSetter cell]),
           effect_slot = ([DFun (bind_ref ws), DFun (unbind_ref ws), DHandler h, DBool paused],
                          if paused then None else Some (''incident-change'', h)),
           state_slot = cell\<rparr>,
          w\<lparr>subscriptions := (if paused then subscriptions w
                               else subscriptions w @ [(''incident-change'', h)]),
            state_cells := (state_cells w)(cell := None),
            next_ref := Suc (Suc (next_ref w))\<rparr>))"
  by (simp add: usePollIncidents_def useState_def useCallback_def useEffect_def channel_bind_def
      Let_def)

lemma usePollIncidents_rerender:
  assumes "callback_slot mem = (h, [DFun m, DSetter (state_slot mem)])"
      and "effect_slot mem
             = ([DFun (bind_ref ws), DFun (unbind_ref ws), DHandler h, DBool was_paused], cl)"
      and "paused = (case paused_arg of None \<Rightarrow> False | Some b \<Rightarrow> b)"
  shows "usePollIncidents ws m paused_arg (Some mem) w =
     (state_cells w (state_slot mem),
      \<lparr>callback_slot = (h, [DFun m, DSetter (state_slot mem)]),
       effect_slot = ([DFun (bind_ref ws), DFun (unbind_ref ws), DHandler h, DBool paused],
                      if paused = was_paused then cl
                      else if paused then None else Some (''incident-change'', h)),
       state_slot = state_slot mem\<rparr>,
      if paused = was_paused then w
      else if paused then run_cleanup cl w
      else channel_bind ''incident-change'' h (run_cleanup cl w))"
  using assms
  by (simp add: usePollIncidents_def useState_def useCallback_def useEffect_def Let_def)

lemma revalidations_bind:
  "revalidations e (w\<lparr>subscriptions := subscriptions w @ [(e, h)], next_ref := n\<rparr>)
   = revalidations e w @ [closure_mutator (hcode h)]"
  by (simp add: revalidations_def delivered_def)

lemma emit_bound_calls:
  "mutate_calls (emit gen e p (w\<lparr>subscriptions := subscriptions w @ [(e, h)], next_ref := n\<rparr>))
     = mutate_calls w @ revalidations e w @ [closure_mutator (hcode h)]"
  by (simp add: emit_fields revalidations_bind)

lemmas poll_eval =
  emits_def emit_def delivered_def revalidations_def call_mutate_def uuidv4_def setState_def
  channel_bind_def channel_unbind_def run_cleanup_def unmount_def useState_def useCallback_def
  useEffect_def usePollIncidents_def usePollIncidentAlerts_def useIncidentAlerts_def useSWR_def
  wf_world_def digit_char_def Let_def split_beta

subsection \<open>Mounting, events and unmounting\<close>

text \<open>
  C7. Mount \<^verbatim>\<open>usePollIncidentAlerts\<close> in a well-formed world, emit \<^verbatim>\<open>incident-change\<close>
  any number of times, unmount, and emit again. While the hook is mounted its handler is
  subscribed once (a re-render changes nothing), and each emission calls the mutator of
  the hook's resource exactly once, after the mutators of the handlers that were
  subscribed before. The cleanup unbinds the pair that was bound: after unmounting, the
  subscriptions are those from before the mount, and an emission calls the mutators of
  the other handlers only.
\<close>

theorem poll_alerts_revalidates_once_while_mounted:
  assumes "wf_world w"
  shows "let (mem, w1) = usePollIncidentAlerts large ws a swr incidentId None w;
             handleIncoming = fst (callback_slot mem);
             w2 = emits gen ''incident-change'' ps w1;
             w3 = unmount mem w2;
             w4 = emits gen ''incident-change'' qs w3
         in subscriptions w1 = subscriptions w @ [(''incident-change'', handleIncoming)]
          \<and> hcode handleIncoming = AlertsIncoming (mutate (useIncidentAlerts large a swr incidentId None None))
          \<and> snd (effect_slot mem) = Some (''incident-change'', handleIncoming)
          \<and> usePollIncidentAlerts large ws a swr incidentId (Some mem) w2 = (mem, w2)
          \<and> mutate_calls w2 = mutate_calls w @ concat (replicate (length ps)
               (revalidations ''incident-change'' w @ [mutate (useIncidentAlerts large a swr incidentId None None)]))
          \<and> subscriptions w3 = subscriptions w
          \<and> mutate_calls w4 = mutate_calls w2 @ concat (replicate (length qs)
               (revalidations ''incident-change'' w))"
proof -
  define h where "h = \<lparr>href = next_ref w, hcode = AlertsIncoming (swr_mutate swr)\<rparr>"
  define mem where "mem = \<lparr>callback_slot = (h, [DFun (swr_mutate swr)]),
     effect_slot = ([DFun (bind_ref ws), DFun (unbind_ref ws), DHandler h], Some (''incident-change'', h))\<rparr>"
  define w1 where "w1 = w\<lparr>subscriptions := subscriptions w @ [(''incident-change'', h)],
            next_ref := Suc (next_ref w)\<rparr>"
  define w2 where "w2 = emits gen ''incident-change'' ps w1"
  define w3 where "w3 = channel_unbind ''incident-change'' h w2"
  have mount: "usePollIncidentAlerts large ws a swr incidentId None w = (mem, w1)"
    by (simp add: usePollIncidentAlerts_mount Let_def mem_def w1_def h_def)
  have m: "mutate (useIncidentAlerts large a swr incidentId None None) = swr_mutate swr"
    by (simp add: useIncidentAlerts_def useSWR_def)
  have rerender: "usePollIncidentAlerts large ws a swr incidentId (Some mem) w2 = (mem, w2)"
    by (subst usePollIncidentAlerts_rerender [where h = h and cl = "Some (''incident-change'', h)"])
       (simp_all add: mem_def)
  have un: "unmount mem w2 = w3"
    by (simp add: unmount_def run_cleanup_def mem_def w3_def)
  have fresh: "filter (\<lambda>s. s \<noteq> (''incident-change'', h)) (subscriptions w) = subscriptions w"
    using assms by (rule wf_fresh_filter) (simp add: h_def)
  have calls2: "mutate_calls w2 = mutate_calls w @ concat (replicate (length ps)
               (revalidations ''incident-change'' w @ [swr_mutate swr]))"
    by (simp add: w2_def emits_fields w1_def revalidations_bind h_def)
  have subs3: "subscriptions w3 = subscriptions w"
    by (simp add: w3_def channel_unbind_def w2_def emits_fields w1_def fresh)
  have calls3: "mutate_calls w3 = mutate_calls w2"
    by (simp add: w3_def channel_unbind_def)
  have calls4: "mutate_calls (emits gen ''incident-change'' qs w3)
      = mutate_calls w2 @ concat (replicate (length qs) (revalidations ''incident-change'' w))"
    by (simp add: emits_fields revalidations_subs [OF subs3] calls3)
  have sel: "fst (callback_slot mem) = h" "snd (effect_slot mem) = Some (''incident-change'', h)"
    "hcode h = AlertsIncoming (swr_mutate swr)"
    by (simp_all add: mem_def h_def)
  have subs1: "subscriptions w1 = subscriptions w @ [(''incident-change'', h)]"
    by (simp add: w1_def)
  show ?thesis
    unfolding mount Let_def prod.case w2_def [symmetric] rerender un m sel
    using subs1 calls2 subs3 calls4 by simp
qed

theorem poll_alerts_revalidates_once_witness:
  "wf_world \<lparr>subscriptions = [(''incident-change'', \<lparr>href = 0, hcode = AlertsIncoming 5\<rparr>)],
             mutate_calls = [], state_cells = (\<lambda>c. None), uuid_calls = 0, next_ref = 1\<rparr>
   \<and> (let w = \<lparr>subscriptions = [(''incident-change'', \<lparr>href = 0, hcode = AlertsIncoming 5\<rparr>)],
               mutate_calls = [], state_cells = (\<lambda>c. None), uuid_calls = 0, next_ref = 1\<rparr>;
           (mem, w1) = usePollIncidentAlerts (\<lambda>i. ''1e+21'') \<lparr>bind_ref = 100, unbind_ref = 101\<rparr> \<lparr>isReady = True\<rparr>
                         \<lparr>swr_isLoading = False, swr_mutate = 9\<rparr> ''42'' None w;
           w2 = emits (\<lambda>k. nat_toString k) ''incident-change''
                  [\<lparr>incident_id = None\<rparr>, \<lparr>incident_id = Some ''42''\<rparr>] w1;
           w3 = unmount mem w2;
           w4 = emits (\<lambda>k. nat_toString k) ''incident-change'' [\<lparr>incident_id = Some ''42''\<rparr>] w3
       in mutate_calls w2 = [5, 9, 5, 9]
        \<and> subscriptions w3 = subscriptions w
        \<and> mutate_calls w4 = [5, 9, 5, 9, 5])"
  using poll_alerts_revalidates_once_while_mounted
    [where w = "\<lparr>subscriptions = [(''incident-change'', \<lparr>href = 0, hcode = AlertsIncoming 5\<rparr>)],
               mutate_calls = [], state_cells = (\<lambda>c. None), uuid_calls = 0, next_ref = 1\<rparr>"
       and large = "\<lambda>i. ''1e+21''"
       and ws = "\<lparr>bind_ref = 100, unbind_ref = 101\<rparr>" and a = "\<lparr>isReady = True\<rparr>"
       and swr = "\<lparr>swr_isLoading = False, swr_mutate = 9\<rparr>" and incidentId = "''42''"
       and gen = "\<lambda>k. nat_toString k"
       and ps = "[\<lparr>incident_id = None\<rparr>, \<lparr>incident_id = Some ''42''\<rparr>]"
       and qs = "[\<lparr>incident_id = Some ''42''\<rparr>]"]
  by (simp add: poll_eval)

subsection \<open>Pausing\<close>

text \<open>
  C8. Mount \<^verbatim>\<open>usePollIncidents\<close> paused in a well-formed world, emit, render with
  \<^verbatim>\<open>paused = false\<close>, emit once, render with \<^verbatim>\<open>paused = true\<close>, and emit again. While
  paused the hook has no subscription and no cleanup to run: the subscriptions are those
  of the other handlers, the emissions call their mutators only, and the token of the
  hook stays what it was (undefined after the mount). The render with \<^verbatim>\<open>paused = false\<close>
  subscribes the handler, and the next emission calls the mutator and sets the token.
\<close>

theorem poll_incidents_paused:
  assumes "wf_world w"
  shows "let (t0, mem0, w0) = usePollIncidents ws m (Some True) None w;
             handleIncoming = fst (callback_slot mem0);
             cell = state_slot mem0;
             wa = emits gen ''incident-change'' ps w0;
             (t1, mem1, w1) = usePollIncidents ws m (Some False) (Some mem0) wa;
             wb = emit gen ''incident-change'' p w1;
             (t2, mem2, w2) = usePollIncidents ws m (Some True) (Some mem1) wb;
             wc = emits gen ''incident-change'' qs w2
         in subscriptions w0 = subscriptions w
          \<and> snd (effect_slot mem0) = None
          \<and> mutate_calls wa = mutate_calls w
               @ concat (replicate (length ps) (revalidations ''incident-change'' w))
          \<and> state_cells wa cell = None
          \<and> t1 = None
          \<and> subscriptions w1 = subscriptions w @ [(''incident-change'', handleIncoming)]
          \<and> hcode handleIncoming = IncidentsIncoming m cell
          \<and> snd (effect_slot mem1) = Some (''incident-change'', handleIncoming)
          \<and> mutate_calls wb = mutate_calls wa @ revalidations ''incident-change'' w @ [m]
          \<and> uuid_calls wa < uuid_calls wb
          \<and> state_cells wb cell = Some (gen (uuid_calls wb - 1))
          \<and> t2 = Some (gen (uuid_calls wb - 1))
          \<and> subscriptions w2 = subscriptions w
          \<and> snd (effect_slot mem2) = None
          \<and> mutate_calls wc = mutate_calls wb
               @ concat (replicate (length qs) (revalidations ''incident-change'' w))
          \<and> state_cells wc cell = state_cells wb cell"
proof -
  define c where "c = next_ref w"
  define h where "h = \<lparr>href = Suc (next_ref w), hcode = IncidentsIncoming m c\<rparr>"
  define deps where "deps = (\<lambda>b. [DFun (bind_ref ws), DFun (unbind_ref ws), DHandler h, DBool b])"
  define mem where "mem = (\<lambda>b cl. \<lparr>callback_slot = (h, [DFun m, DSetter c]),
     effect_slot = (deps b, cl), state_slot = c\<rparr>)"
  define w0 where "w0 = w\<lparr>state_cells := (state_cells w)(c := None),
     next_ref := Suc (Suc (next_ref w))\<rparr>"
  define wa where "wa = emits gen ''incident-change'' ps w0"
  define w1 where "w1 = channel_bind ''incident-change'' h wa"
  define wb where "wb = emit gen ''incident-change'' p w1"
  define w2 where "w2 = channel_unbind ''incident-change'' h wb"
  define wc where "wc = emits gen ''incident-change'' qs w2"
  have hc: "hcode h = IncidentsIncoming m c" by (simp add: h_def)
  have mount: "usePollIncidents ws m (Some True) None w = (None, mem True None, w0)"
    by (simp add: usePollIncidents_mount Let_def mem_def w0_def h_def c_def deps_def)
  have resume: "usePollIncidents ws m (Some False) (Some (mem True None)) wa
                 = (state_cells wa c, mem False (Some (''incident-change'', h)), w1)"
    by (subst usePollIncidents_rerender [where h = h and was_paused = True
          and cl = None and paused = False])
       (simp_all add: mem_def deps_def w1_def run_cleanup_def)
  have pause: "usePollIncidents ws m (Some True) (Some (mem False (Some (''incident-change'', h)))) wb
                 = (state_cells wb c, mem True None, w2)"
    by (subst usePollIncidents_rerender [where h = h and was_paused = False
          and cl = "Some (''incident-change'', h)" and paused = True])
       (simp_all add: mem_def deps_def w2_def run_cleanup_def)
  have fresh: "filter (\<lambda>s. s \<noteq> (''incident-change'', h)) (subscriptions w) = subscriptions w"
    using assms by (rule wf_fresh_filter) (simp add: h_def)
  have untouched: "\<forall>h \<in> set (delivered ''incident-change'' w). c \<notin> set (closure_cells (hcode h))"
    using assms by (rule wf_cells_fresh) (simp add: c_def)
  have subs0: "subscriptions w0 = subscriptions w" by (simp add: w0_def)
  have callsa: "mutate_calls wa = mutate_calls w
               @ concat (replicate (length ps) (revalidations ''incident-change'' w))"
    by (simp add: wa_def emits_fields revalidations_subs [OF subs0]) (simp add: w0_def)
  have cellsa: "state_cells wa c = None"
    unfolding wa_def using emits_cell_untouched [of "''incident-change''" w0 c gen ps] untouched
    by (simp add: delivered_subs [OF subs0]) (simp add: w0_def)
  have subs1: "subscriptions w1 = subscriptions w @ [(''incident-change'', h)]"
    by (simp add: w1_def channel_bind_def wa_def emits_fields subs0)
  have calls1: "mutate_calls w1 = mutate_calls wa" and uuid1: "uuid_calls w1 = uuid_calls wa"
    by (simp_all add: w1_def channel_bind_def)
  have rev1: "revalidations ''incident-change'' w1 = revalidations ''incident-change'' w @ [m]"
    by (simp add: revalidations_def delivered_def subs1 h_def)
  have callsb: "mutate_calls wb = mutate_calls wa @ revalidations ''incident-change'' w @ [m]"
    by (simp add: wb_def emit_fields rev1 calls1)
  have tok: "state_cells wb c = Some (gen (uuid_calls wb - 1))"
    unfolding wb_def by (rule emit_token(1) [OF subs1 hc])
  have newer: "uuid_calls wa < uuid_calls wb"
    unfolding wb_def using emit_token(2) [OF subs1 hc, of gen p] by (simp add: uuid1)
  have subs2: "subscriptions w2 = subscriptions w"
    by (simp add: w2_def channel_unbind_def wb_def emit_fields subs1 fresh)
  have calls2: "mutate_calls w2 = mutate_calls wb" and cells2: "state_cells w2 = state_cells wb"
    by (simp_all add: w2_def channel_unbind_def)
  have callsc: "mutate_calls wc = mutate_calls wb
               @ concat (replicate (length qs) (revalidations ''incident-change'' w))"
    by (simp add: wc_def emits_fields revalidations_subs [OF subs2] calls2)
  have cellsc: "state_cells wc c = state_cells wb c"
    unfolding wc_def using emits_cell_untouched [of "''incident-change''" w2 c gen qs] untouched
    by (simp add: delivered_subs [OF subs2] cells2)
  have sel: "fst (callback_slot (mem True None)) = h"
    "state_slot (mem True None) = c"
    "snd (effect_slot (mem True None)) = None"
    "snd (effect_slot (mem False (Some (''incident-change'', h)))) = Some (''incident-change'', h)"
    by (simp_all add: mem_def)
  show ?thesis
    unfolding mount Let_def prod.case wa_def [symmetric] resume wb_def [symmetric] pause
      wc_def [symmetric] sel
    using subs0 callsa cellsa subs1 hc callsb newer tok subs2 callsc cellsc by simp
qed

theorem poll_incidents_paused_witness:
  "wf_world \<lparr>subscriptions = [(''incident-change'', \<lparr>href = 0, hcode = AlertsIncoming 5\<rparr>)],
             mutate_calls = [], state_cells = (\<lambda>c. None), uuid_calls = 0, next_ref = 1\<rparr>
   \<and> (let w = \<lparr>subscriptions = [(''incident-change'', \<lparr>href = 0, hcode = AlertsIncoming 5\<rparr>)],
               mutate_calls = [], state_cells = (\<lambda>c. None), uuid_calls = 0, next_ref = 1\<rparr>;
           (t0, mem0, w0) = usePollIncidents \<lparr>bind_ref = 100, unbind_ref = 101\<rparr> 7 (Some True) None w;
           wa = emits (\<lambda>k. ''uuid-'' @ nat_toString k) ''incident-change'' [\<lparr>incident_id = None\<rparr>] w0;
           (t1, mem1, w1) = usePollIncidents \<lparr>bind_ref = 100, unbind_ref = 101\<rparr> 7 (Some False)
                              (Some mem0) wa;
           wb = emit (\<lambda>k. ''uuid-'' @ nat_toString k) ''incident-change'' \<lparr>incident_id = None\<rparr> w1;
           (t2, mem2, w2) = usePollIncidents \<lparr>bind_ref = 100, unbind_ref = 101\<rparr> 7 (Some True)
                              (Some mem1) wb;
           wc = emits (\<lambda>k. ''uuid-'' @ nat_toString k) ''incident-change'' [\<lparr>incident_id = None\<rparr>] w2
       in subscriptions w0 = subscriptions w
        \<and> mutate_calls wa = [5]
        \<and> t1 = None
        \<and> mutate_calls wb = [5, 5, 7]
        \<and> subscriptions w2 = subscriptions w
        \<and> mutate_calls wc = [5, 5, 7, 5])"
proof -
  let ?w = "\<lparr>subscriptions = [(''incident-change'', \<lparr>href = 0, hcode = AlertsIncoming 5\<rparr>)],
               mutate_calls = [], state_cells = (\<lambda>c. None), uuid_calls = 0, next_ref = 1\<rparr>"
  have wf: "wf_world ?w"
    by (simp add: wf_world_def)
  have rev: "revalidations ''incident-change'' ?w = [5]"
    by (simp add: revalidations_def delivered_def)
  note t = poll_incidents_paused
    [OF wf, of "\<lparr>bind_ref = 100, unbind_ref = 101\<rparr>" 7 "\<lambda>k. ''uuid-'' @ nat_toString k"
        "[\<lparr>incident_id = None\<rparr>]" "\<lparr>incident_id = None\<rparr>" "[\<lparr>incident_id = None\<rparr>]",
     unfolded rev]
  show ?thesis
    using wf t by (simp add: Let_def split_beta)
qed

subsection \<open>The change token\<close>

text \<open>
  C9. Mount \<^verbatim>\<open>usePollIncidents\<close> not paused and let any number of events pass. The next
  \<^verbatim>\<open>incident-change\<close> event calls the supplied mutator once, after the mutators of the
  handlers subscribed before, and sets the token to the value of a call of \<^verbatim>\<open>uuidv4()\<close>
  made for this event (the latest call, which no earlier event can have seen); the next
  render returns that token and leaves the subscription as it is.
\<close>

theorem poll_incidents_event_renews_token:
  assumes "paused_arg \<noteq> Some True"
  shows "let (t0, mem, w1) = usePollIncidents ws mutateIncidents paused_arg None w;
             wn = emits gen ''incident-change'' ps w1;
             w' = emit gen ''incident-change'' p wn;
             (t', mem', w'') = usePollIncidents ws mutateIncidents paused_arg (Some mem) w'
         in mutate_calls w' = mutate_calls wn @ revalidations ''incident-change'' w @ [mutateIncidents]
          \<and> uuid_calls wn < uuid_calls w'
          \<and> state_cells w' (state_slot mem) = Some (gen (uuid_calls w' - 1))
          \<and> t' = Some (gen (uuid_calls w' - 1))
          \<and> mem' = mem \<and> w'' = w'"
proof -
  define c where "c = next_ref w"
  define h where "h = \<lparr>href = Suc (next_ref w), hcode = IncidentsIncoming mutateIncidents c\<rparr>"
  define deps where "deps = [DFun (bind_ref ws), DFun (unbind_ref ws), DHandler h, DBool False]"
  define mem where "mem = \<lparr>callback_slot = (h, [DFun mutateIncidents, DSetter c]),
     effect_slot = (deps, Some (''incident-change'', h)), state_slot = c\<rparr>"
  define w1 where "w1 = w\<lparr>subscriptions := subscriptions w @ [(''incident-change'', h)],
     state_cells := (state_cells w)(c := None), next_ref := Suc (Suc (next_ref w))\<rparr>"
  define wn where "wn = emits gen ''incident-change'' ps w1"
  define w' where "w' = emit gen ''incident-change'' p wn"
  have paused: "(case paused_arg of None \<Rightarrow> False | Some b \<Rightarrow> b) = False"
    using assms by (cases paused_arg) auto
  have mount: "usePollIncidents ws mutateIncidents paused_arg None w = (None, mem, w1)"
    by (simp add: usePollIncidents_mount paused Let_def mem_def w1_def h_def c_def deps_def)
  have subs_n: "subscriptions wn = subscriptions w @ [(''incident-change'', h)]"
    by (simp add: wn_def emits_fields w1_def)
  have rev_n: "revalidations ''incident-change'' wn
                 = revalidations ''incident-change'' w @ [mutateIncidents]"
    by (simp add: revalidations_def delivered_def subs_n h_def)
  have calls: "mutate_calls w'
                 = mutate_calls wn @ revalidations ''incident-change'' w @ [mutateIncidents]"
    by (simp add: w'_def emit_fields rev_n)
  have hc: "hcode h = IncidentsIncoming mutateIncidents c" by (simp add: h_def)
  have tok: "state_cells w' c = Some (gen (uuid_calls w' - 1))"
    unfolding w'_def by (rule emit_token(1) [OF subs_n hc])
  have newer: "uuid_calls wn < uuid_calls w'"
    unfolding w'_def by (rule emit_token(2) [OF subs_n hc])
  have rerender: "usePollIncidents ws mutateIncidents paused_arg (Some mem) w'
                    = (state_cells w' c, mem, w')"
    by (subst usePollIncidents_rerender [where h = h and was_paused = False
          and cl = "Some (''incident-change'', h)" and paused = False])
       (simp_all add: mem_def deps_def paused)
  show ?thesis
    unfolding mount Let_def prod.case wn_def [symmetric] w'_def [symmetric] rerender
    using calls newer tok by (simp add: mem_def)
qed

theorem poll_incidents_event_renews_token_witness:
  "(None :: bool option) \<noteq> Some True
   \<and> (let w = \<lparr>subscriptions = [(''incident-change'', \<lparr>href = 0, hcode = AlertsIncoming 5\<rparr>)],
               mutate_calls = [], state_cells = (\<lambda>c. None), uuid_calls = 0, next_ref = 1\<rparr>;
           (t0, mem, w1) = usePollIncidents \<lparr>bind_ref = 100, unbind_ref = 101\<rparr> 7 None None w;
           wn = emits (\<lambda>k. ''uuid-'' @ nat_toString k) ''incident-change'' [\<lparr>incident_id = None\<rparr>] w1;
           w' = emit (\<lambda>k. ''uuid-'' @ nat_toString k) ''incident-change'' \<lparr>incident_id = Some ''42''\<rparr> wn;
           (t', mem', w'') = usePollIncidents \<lparr>bind_ref = 100, unbind_ref = 101\<rparr> 7 None (Some mem) w'
       in t0 = None
        \<and> mutate_calls wn = [5, 7]
        \<and> state_cells wn (state_slot mem) = Some ''uuid-0''
        \<and> mutate_calls w' = [5, 7, 5, 7]
        \<and> t' = Some ''uuid-1'')"
  using poll_incidents_event_renews_token
    [of None "\<lparr>bind_ref = 100, unbind_ref = 101\<rparr>" 7
        "\<lparr>subscriptions = [(''incident-change'', \<lparr>href = 0, hcode = AlertsIncoming 5\<rparr>)],
               mutate_calls = [], state_cells = (\<lambda>c. None), uuid_calls = 0, next_ref = 1\<rparr>"
        "\<lambda>k. ''uuid-'' @ nat_toString k" "[\<lparr>incident_id = None\<rparr>]"
        "\<lparr>incident_id = Some ''42''\<rparr>"]
  by (simp add: poll_eval)

subsection \<open>The payload\<close>

text \<open>
  C10. No handler of the poll hooks looks at the payload: an emission has the same effect
  for any two payloads, and after mounting \<^verbatim>\<open>usePollIncidentAlerts\<close>,
  \<^verbatim>\<open>usePollIncidentComments\<close> or \<^verbatim>\<open>usePollIncidents\<close>, an event of the hook's name with any
  payload (a null \<^verbatim>\<open>incident_id\<close>, or the id of another incident) calls the mutator of
  the hook.
\<close>

theorem poll_handlers_ignore_payload:
  fixes p q :: payload
  shows "emit gen e p w = emit gen e q w
   \<and> mutate_calls (emit gen ''incident-change'' p (snd (usePollIncidentAlerts large ws a swr incidentId None w)))
       = mutate_calls w @ revalidations ''incident-change'' w
           @ [mutate (useIncidentAlerts large a swr incidentId None None)]
   \<and> mutate_calls (emit gen ''incident-comment'' p
         (snd (usePollIncidentComments ws useAlertAudit incidentId None w)))
       = mutate_calls w @ revalidations ''incident-comment'' w @ [useAlertAudit incidentId]
   \<and> mutate_calls (emit gen ''incident-change'' p
         (snd (snd (usePollIncidents ws mutateIncidents None None w))))
       = mutate_calls w @ revalidations ''incident-change'' w @ [mutateIncidents]"
proof -
  have m: "mutate (useIncidentAlerts large a swr incidentId None None) = swr_mutate swr"
    by (simp add: useIncidentAlerts_def useSWR_def)
  have 1: "emit gen e p w = emit gen e q w" by (rule emit_any_payload)
  have 2: "mutate_calls (emit gen ''incident-change'' p
             (snd (usePollIncidentAlerts large ws a swr incidentId None w)))
       = mutate_calls w @ revalidations ''incident-change'' w @ [swr_mutate swr]"
    by (simp add: usePollIncidentAlerts_mount Let_def emit_bound_calls)
  have 3: "mutate_calls (emit gen ''incident-comment'' p
         (snd (usePollIncidentComments ws useAlertAudit incidentId None w)))
       = mutate_calls w @ revalidations ''incident-comment'' w @ [useAlertAudit incidentId]"
    by (simp add: usePollIncidentComments_mount Let_def emit_bound_calls)
  have 4: "mutate_calls (emit gen ''incident-change'' p
         (snd (snd (usePollIncidents ws mutateIncidents None None w))))
       = mutate_calls w @ revalidations ''incident-change'' w @ [mutateIncidents]"
    by (simp add: usePollIncidents_mount Let_def emit_fields revalidations_def delivered_def)
  show ?thesis using 1 2 3 4 by (simp add: m)
qed

end
